theory Spec2Isabelle
  imports Complex_Main "HOL-Library.Word" "HOL-Library.Log_Nat"
begin

section \<open>Values, errors and configuration\<close>

text \<open>
  The billing core of the template (the PostgreSQL variant of
  \<^verbatim>\<open>app/services/billing.py\<close>, \<^verbatim>\<open>app/repositories/billing.py\<close>,
  \<^verbatim>\<open>app/billing/providers/creem.py\<close> and \<^verbatim>\<open>app/api/routes/webhooks/creem.py\<close>).

  Decoded webhook payloads are dynamically typed JSON values. Python's \<^verbatim>\<open>None\<close> is
  \<open>JNull\<close>; a dictionary keeps its insertion order, as Python's does. A decoded JSON
  object is a \<open>JObj\<close>, whose keys are strings. \<open>JDict\<close> is a Python dictionary with
  a key that is not a string; \<^verbatim>\<open>json.loads\<close> returns none, but \<^verbatim>\<open>dict.update\<close> can
  build one. A number is an integer or a finite double.
\<close>

datatype json =
    JNull
  | JBool bool
  | JInt int
  | JFloat real
  | JStr string
  | JArr "json list"
  | JObj "(string \<times> json) list"
  | JDict "(json \<times> json) list"

type_synonym uuid = "128 word"

type_synonym datetime = int

text \<open>
  Every exception the modelled code can raise. \<open>PaymentRequiredError\<close> carries the
  \<^verbatim>\<open>details\<close> of the source: required credits, then available credits.
  \<open>JSONDecodeError\<close> stands for what \<^verbatim>\<open>json.loads(payload.decode("utf-8"))\<close> raises.
\<close>

datatype error =
    PaymentRequiredError int int
  | HTTPException nat string
  | IntegrityError
  | DataError
  | JSONDecodeError
  | AttributeError
  | TypeError
  | ValueError
  | OverflowError

text \<open>
  The part of \<^verbatim>\<open>settings\<close> that the billing core reads. A credit pack is one entry
  of \<^verbatim>\<open>BILLING_CREDIT_PACKS\<close>; a key that the dictionary may lack is an option.
\<close>

record credit_pack =
  pack_credits :: "int option"
  pack_price_usd :: real
  pack_provider_product_id :: "string option"

record settings =
  BILLING_MONTHLY_CREDITS :: int
  BILLING_TOKENS_PER_CREDIT :: int
  BILLING_CREDIT_PACKS :: "credit_pack list"
  BILLING_MODEL_MULTIPLIERS :: "string \<rightharpoonup> real"
  CREEM_WEBHOOK_SECRET :: string
  CREEM_SUBSCRIPTION_PRODUCT_ID :: string

section \<open>Floating point\<close>

text \<open>
  A Python \<^verbatim>\<open>float\<close> is an IEEE 754 double: 53 significant bits, the smallest positive
  value 2 to the power -1074. Every operation returns the double nearest to the exact result,
  a tie going to the one whose last bit is zero. \<open>round_double\<close> is that rounding: the
  argument is scaled so that the smallest positive double becomes 1, the spacing \<open>q\<close> of
  the doubles around it is read off the bit length of its integer part (and is 1 below
  2 to the power 53, where the doubles are the multiples of the smallest one), and the scaled
  value is rounded to a multiple of \<open>q\<close>.

  \<open>round_double\<close> has no upper end. Where the rounded result would lie beyond the
  largest double Python does not return a number: \<^verbatim>\<open>int / int\<close> and \<^verbatim>\<open>float(int)\<close> raise
  \<^verbatim>\<open>OverflowError\<close>, and a product becomes infinite, on which \<^verbatim>\<open>math.ceil\<close> raises
  \<^verbatim>\<open>OverflowError\<close>. \<open>double_overflow\<close> marks those exact results.
\<close>

definition denorm_bits :: nat where
  "denorm_bits = 1074"

definition round_half_even :: "real \<Rightarrow> int" where
  "round_half_even y =
     (let f = \<lfloor>y\<rfloor>; r = y - of_int f
      in if r < 1 / 2 then f else if 1 / 2 < r then f + 1 else if even f then f else f + 1)"

definition round_double :: "real \<Rightarrow> real" where
  "round_double x =
     (let m = \<bar>x\<bar> * 2 ^ denorm_bits;
          q = 2 ^ nat (bitlen \<lfloor>m\<rfloor> - 53)
      in sgn x * (of_int (round_half_even (m / q)) * q / 2 ^ denorm_bits))"

definition double_overflow :: "real \<Rightarrow> bool" where
  "double_overflow x = (2 ^ 1024 - 2 ^ 970 \<le> \<bar>x\<bar>)"

section \<open>Cost model\<close>

text \<open>
  A configured multiplier is a finite double, so \<^verbatim>\<open>float\<close> returns it as it is.
\<close>

definition get_model_multiplier :: "settings \<Rightarrow> string option \<Rightarrow> real" where
  "get_model_multiplier s model_name =
     (let multipliers = BILLING_MODEL_MULTIPLIERS s;
          fallback = (case multipliers ''default'' of Some m \<Rightarrow> m | None \<Rightarrow> 1)
      in case model_name of
           None \<Rightarrow> fallback
         | Some n \<Rightarrow>
             (if n \<noteq> [] then (case multipliers n of Some m \<Rightarrow> m | None \<Rightarrow> fallback)
              else fallback))"

text \<open>
  \<^verbatim>\<open>math.ceil((total_tokens / tokens_per_credit) * multiplier)\<close>: the quotient of the two
  integers is rounded to a double, and so is its product with the multiplier.
  The function has no error path: on the inputs that \<open>cost_in_range\<close> excludes, where
  Python raises \<^verbatim>\<open>OverflowError\<close>, it goes on with the unbounded rounding.
\<close>

definition calculate_cost_credits :: "settings \<Rightarrow> int \<Rightarrow> string option \<Rightarrow> int" where
  "calculate_cost_credits s total_tokens model_name =
     (if total_tokens \<le> 0 then 0
      else
        (let tokens_per_credit = max (BILLING_TOKENS_PER_CREDIT s) 1;
             multiplier = get_model_multiplier s model_name
         in \<lceil>round_double
              (round_double (real_of_int total_tokens / real_of_int tokens_per_credit)
                 * multiplier)\<rceil>))"

text \<open>
  The positive token counts on which the code returns a cost: the quotient stays within
  the range of a double (the division of the two integers raises \<^verbatim>\<open>OverflowError\<close>
  otherwise), and so does its product with the multiplier (which is infinite otherwise,
  and \<^verbatim>\<open>math.ceil\<close> raises \<^verbatim>\<open>OverflowError\<close> on it).
\<close>

definition cost_in_range :: "settings \<Rightarrow> int \<Rightarrow> string option \<Rightarrow> bool" where
  "cost_in_range s total_tokens model_name =
     (let quotient =
            real_of_int total_tokens / real_of_int (max (BILLING_TOKENS_PER_CREDIT s) 1)
      in \<not> double_overflow quotient \<and>
         \<not> double_overflow (round_double quotient * get_model_multiplier s model_name))"

section \<open>Persistent state\<close>

text \<open>
  The four tables. \<^verbatim>\<open>credit_wallets.user_id\<close> and
  \<^verbatim>\<open>payment_transactions.external_id\<close> are declared unique, so each of these tables
  is a map from that column to the rest of the row. Subscriptions are kept newest first
  (the order of \<^verbatim>\<open>created_at\<close> descending), ledger rows oldest first. Surrogate
  ids, timestamps, the width of the integer columns and the foreign key to the users
  table are not modelled.
\<close>

record credit_wallet =
  monthly_remaining :: int
  prepaid_balance :: int

record subscription =
  s_user_id :: uuid
  s_provider :: string
  s_provider_subscription_id :: "string option"
  s_status :: string
  s_plan_name :: "string option"
  s_monthly_credits :: int
  s_current_period_start :: "datetime option"
  s_current_period_end :: "datetime option"
  s_metadata :: "json option"

record token_ledger =
  l_user_id :: uuid
  l_model_name :: "string option"
  l_prompt_tokens :: "int option"
  l_completion_tokens :: "int option"
  l_total_tokens :: int
  cost_credits :: int
  overage_credits :: int
  l_provider_request_id :: "string option"
  l_metadata :: "json option"

record payment_transaction =
  t_user_id :: uuid
  t_provider :: string
  t_kind :: string
  t_status :: string
  t_amount :: "real option"
  t_currency :: "string option"
  t_credits_granted :: int
  t_metadata :: "json option"

record db =
  credit_wallets :: "uuid \<rightharpoonup> credit_wallet"
  subscriptions :: "subscription list"
  token_ledgers :: "token_ledger list"
  payment_transactions :: "string \<rightharpoonup> payment_transaction"

text \<open>
  A repository or service call returns its value or the exception it raised, together
  with the state of the session at that point.
\<close>

type_synonym 'a result = "(error + 'a) \<times> db"

section \<open>Repository\<close>

definition get_wallet_by_user_id :: "db \<Rightarrow> uuid \<Rightarrow> credit_wallet option" where
  "get_wallet_by_user_id d user_id = credit_wallets d user_id"

definition create_wallet :: "db \<Rightarrow> uuid \<Rightarrow> int \<Rightarrow> int \<Rightarrow> credit_wallet result" where
  "create_wallet d user_id monthly prepaid =
     (case credit_wallets d user_id of
        Some _ \<Rightarrow> (Inl IntegrityError, d)
      | None \<Rightarrow>
          (let wallet = \<lparr>monthly_remaining = monthly, prepaid_balance = prepaid\<rparr>
           in (Inr wallet, d\<lparr>credit_wallets := (credit_wallets d)(user_id \<mapsto> wallet)\<rparr>)))"

text \<open>
  The wallet object of the source carries its \<^verbatim>\<open>user_id\<close>; here the row's key is
  passed beside the changed fields.
\<close>

definition update_wallet :: "db \<Rightarrow> uuid \<Rightarrow> credit_wallet \<Rightarrow> credit_wallet result" where
  "update_wallet d user_id wallet =
     (Inr wallet, d\<lparr>credit_wallets := (credit_wallets d)(user_id \<mapsto> wallet)\<rparr>)"

definition get_latest_subscription :: "db \<Rightarrow> uuid \<Rightarrow> subscription option" where
  "get_latest_subscription d user_id = find (\<lambda>r. s_user_id r = user_id) (subscriptions d)"

fun replace_latest :: "uuid \<Rightarrow> subscription \<Rightarrow> subscription list \<Rightarrow> subscription list" where
  "replace_latest user_id new [] = []"
| "replace_latest user_id new (r # rs) =
     (if s_user_id r = user_id then new # rs else r # replace_latest user_id new rs)"

definition upsert_subscription ::
  "db \<Rightarrow> uuid \<Rightarrow> string \<Rightarrow> string option \<Rightarrow> string \<Rightarrow> string option \<Rightarrow> int \<Rightarrow>
   datetime option \<Rightarrow> datetime option \<Rightarrow> json option \<Rightarrow> subscription result" where
  "upsert_subscription d user_id provider provider_subscription_id status plan_name
     monthly_credits current_period_start current_period_end metadata =
     (case get_latest_subscription d user_id of
        Some row \<Rightarrow>
          (let row' = row\<lparr>s_provider := provider,
                           s_provider_subscription_id := provider_subscription_id,
                           s_status := status,
                           s_plan_name := plan_name,
                           s_monthly_credits := monthly_credits,
                           s_current_period_start := current_period_start,
                           s_current_period_end := current_period_end,
                           s_metadata := metadata\<rparr>
           in (Inr row', d\<lparr>subscriptions := replace_latest user_id row' (subscriptions d)\<rparr>))
      | None \<Rightarrow>
          (let row' = \<lparr>s_user_id = user_id,
                        s_provider = provider,
                        s_provider_subscription_id = provider_subscription_id,
                        s_status = status,
                        s_plan_name = plan_name,
                        s_monthly_credits = monthly_credits,
                        s_current_period_start = current_period_start,
                        s_current_period_end = current_period_end,
                        s_metadata = metadata\<rparr>
           in (Inr row', d\<lparr>subscriptions := row' # subscriptions d\<rparr>)))"

definition create_ledger_entry ::
  "db \<Rightarrow> uuid \<Rightarrow> string option \<Rightarrow> int option \<Rightarrow> int option \<Rightarrow> int \<Rightarrow> int \<Rightarrow> int \<Rightarrow>
   string option \<Rightarrow> json option \<Rightarrow> token_ledger result" where
  "create_ledger_entry d user_id model_name prompt_tokens completion_tokens total_tokens
     cost overage provider_request_id metadata =
     (let entry = \<lparr>l_user_id = user_id,
                    l_model_name = model_name,
                    l_prompt_tokens = prompt_tokens,
                    l_completion_tokens = completion_tokens,
                    l_total_tokens = total_tokens,
                    cost_credits = cost,
                    overage_credits = overage,
                    l_provider_request_id = provider_request_id,
                    l_metadata = metadata\<rparr>
      in (Inr entry, d\<lparr>token_ledgers := token_ledgers d @ [entry]\<rparr>))"

definition get_transaction_by_external_id :: "db \<Rightarrow> string \<Rightarrow> payment_transaction option" where
  "get_transaction_by_external_id d external_id = payment_transactions d external_id"

definition create_transaction ::
  "db \<Rightarrow> uuid \<Rightarrow> string \<Rightarrow> string \<Rightarrow> string \<Rightarrow> string \<Rightarrow> real option \<Rightarrow> string option \<Rightarrow>
   int \<Rightarrow> json option \<Rightarrow> payment_transaction result" where
  "create_transaction d user_id provider external_id kind status amount currency
     credits_granted metadata =
     (case payment_transactions d external_id of
        Some _ \<Rightarrow> (Inl IntegrityError, d)
      | None \<Rightarrow>
          (let row = \<lparr>t_user_id = user_id,
                       t_provider = provider,
                       t_kind = kind,
                       t_status = status,
                       t_amount = amount,
                       t_currency = currency,
                       t_credits_granted = credits_granted,
                       t_metadata = metadata\<rparr>
           in (Inr row,
               d\<lparr>payment_transactions := (payment_transactions d)(external_id \<mapsto> row)\<rparr>)))"

section \<open>Billing service\<close>

definition get_wallet :: "db \<Rightarrow> uuid \<Rightarrow> credit_wallet result" where
  "get_wallet d user_id =
     (case get_wallet_by_user_id d user_id of
        Some wallet \<Rightarrow> (Inr wallet, d)
      | None \<Rightarrow> create_wallet d user_id 0 0)"

definition precheck :: "settings \<Rightarrow> db \<Rightarrow> uuid \<Rightarrow> string option \<Rightarrow> int \<Rightarrow> int result" where
  "precheck s d user_id model_name estimated_tokens =
     (case get_wallet d user_id of
        (Inl e, d1) \<Rightarrow> (Inl e, d1)
      | (Inr wallet, d1) \<Rightarrow>
          (let cost = calculate_cost_credits s estimated_tokens model_name;
               available = monthly_remaining wallet + prepaid_balance wallet
           in if available < cost then (Inl (PaymentRequiredError cost available), d1)
              else (Inr cost, d1)))"

definition commit_usage ::
  "settings \<Rightarrow> db \<Rightarrow> uuid \<Rightarrow> string option \<Rightarrow> int option \<Rightarrow> int option \<Rightarrow> int \<Rightarrow>
   string option \<Rightarrow> json option \<Rightarrow> token_ledger result" where
  "commit_usage s d user_id model_name prompt_tokens completion_tokens total_tokens
     provider_request_id metadata =
     (case get_wallet d user_id of
        (Inl e, d1) \<Rightarrow> (Inl e, d1)
      | (Inr wallet, d1) \<Rightarrow>
          (let cost = calculate_cost_credits s total_tokens model_name;
               monthly_deducted = min (monthly_remaining wallet) cost;
               remaining = cost - monthly_deducted;
               prepaid_deducted = min (prepaid_balance wallet) remaining;
               overage = cost - monthly_deducted - prepaid_deducted;
               wallet' = wallet\<lparr>monthly_remaining := monthly_remaining wallet - monthly_deducted,
                                 prepaid_balance := prepaid_balance wallet - prepaid_deducted\<rparr>
           in case update_wallet d1 user_id wallet' of
                (Inl e, d2) \<Rightarrow> (Inl e, d2)
              | (Inr _, d2) \<Rightarrow>
                  create_ledger_entry d2 user_id model_name prompt_tokens completion_tokens
                    total_tokens cost overage provider_request_id metadata))"

definition grant_monthly_allowance ::
  "settings \<Rightarrow> db \<Rightarrow> uuid \<Rightarrow> string \<Rightarrow> string option \<Rightarrow> string \<Rightarrow> string option \<Rightarrow>
   datetime option \<Rightarrow> datetime option \<Rightarrow> json option \<Rightarrow> subscription result" where
  "grant_monthly_allowance s d user_id provider provider_subscription_id status plan_name
     current_period_start current_period_end metadata =
     (case get_wallet d user_id of
        (Inl e, d1) \<Rightarrow> (Inl e, d1)
      | (Inr wallet, d1) \<Rightarrow>
          (case update_wallet d1 user_id
                  (wallet\<lparr>monthly_remaining := BILLING_MONTHLY_CREDITS s\<rparr>) of
             (Inl e, d2) \<Rightarrow> (Inl e, d2)
           | (Inr _, d2) \<Rightarrow>
               upsert_subscription d2 user_id provider provider_subscription_id status
                 plan_name (BILLING_MONTHLY_CREDITS s) current_period_start
                 current_period_end metadata))"

definition apply_pack_purchase ::
  "db \<Rightarrow> uuid \<Rightarrow> string \<Rightarrow> string \<Rightarrow> int \<Rightarrow> real option \<Rightarrow> string option \<Rightarrow>
   json option \<Rightarrow> unit result" where
  "apply_pack_purchase d user_id provider external_id credits amount currency metadata =
     (case get_transaction_by_external_id d external_id of
        Some _ \<Rightarrow> (Inr (), d)
      | None \<Rightarrow>
          (case get_wallet d user_id of
             (Inl e, d1) \<Rightarrow> (Inl e, d1)
           | (Inr wallet, d1) \<Rightarrow>
               (case update_wallet d1 user_id
                       (wallet\<lparr>prepaid_balance := prepaid_balance wallet + credits\<rparr>) of
                  (Inl e, d2) \<Rightarrow> (Inl e, d2)
                | (Inr _, d2) \<Rightarrow>
                    (case create_transaction d2 user_id provider external_id ''credit_pack''
                            ''completed'' amount currency credits metadata of
                       (Inl e, d3) \<Rightarrow> (Inl e, d3)
                     | (Inr _, d3) \<Rightarrow> (Inr (), d3)))))"

definition record_subscription_payment ::
  "settings \<Rightarrow> db \<Rightarrow> uuid \<Rightarrow> string \<Rightarrow> string \<Rightarrow> real option \<Rightarrow> string option \<Rightarrow>
   json option \<Rightarrow> unit result" where
  "record_subscription_payment s d user_id provider external_id amount currency metadata =
     (case get_transaction_by_external_id d external_id of
        Some _ \<Rightarrow> (Inr (), d)
      | None \<Rightarrow>
          (case create_transaction d user_id provider external_id ''subscription''
                  ''completed'' amount currency (BILLING_MONTHLY_CREDITS s) metadata of
             (Inl e, d1) \<Rightarrow> (Inl e, d1)
           | (Inr _, d1) \<Rightarrow> (Inr (), d1)))"

section \<open>Python values\<close>

text \<open>Truthiness of a decoded JSON value, as \<^verbatim>\<open>if x\<close>, \<^verbatim>\<open>not x\<close> and \<^verbatim>\<open>x or y\<close> test it.\<close>

fun truthy :: "json \<Rightarrow> bool" where
  "truthy JNull = False"
| "truthy (JBool b) = b"
| "truthy (JInt i) = (i \<noteq> 0)"
| "truthy (JFloat r) = (r \<noteq> 0)"
| "truthy (JStr s) = (s \<noteq> [])"
| "truthy (JArr xs) = (xs \<noteq> [])"
| "truthy (JObj kvs) = (kvs \<noteq> [])"
| "truthy (JDict kvs) = (kvs \<noteq> [])"

definition py_or :: "json \<Rightarrow> json \<Rightarrow> json" where
  "py_or a b = (if truthy a then a else b)"

definition and_then :: "error + 'a \<Rightarrow> ('a \<Rightarrow> error + 'b) \<Rightarrow> error + 'b" where
  "and_then m f = (case m of Inl e \<Rightarrow> Inl e | Inr v \<Rightarrow> f v)"

text \<open>
  \<^verbatim>\<open>x.get(key, default)\<close>: only a dictionary has \<^verbatim>\<open>get\<close>; on any other value
  the attribute lookup raises. \<^verbatim>\<open>x.get(key)\<close> is \<open>py_get x key JNull\<close>.
\<close>

definition py_get :: "json \<Rightarrow> string \<Rightarrow> json \<Rightarrow> error + json" where
  "py_get x key dflt =
     (case x of
        JObj kvs \<Rightarrow> Inr (case map_of kvs key of None \<Rightarrow> dflt | Some v \<Rightarrow> v)
      | JDict kvs \<Rightarrow> Inr (case map_of kvs (JStr key) of None \<Rightarrow> dflt | Some v \<Rightarrow> v)
      | _ \<Rightarrow> Inl AttributeError)"

fun is_dict :: "json \<Rightarrow> bool" where
  "is_dict (JObj kvs) = True"
| "is_dict (JDict kvs) = True"
| "is_dict _ = False"

text \<open>
  Keys of a dictionary. Lists and dictionaries are not hashable. Two keys are the same
  key when they are equal in Python, where \<^verbatim>\<open>True == 1 == 1.0\<close>; storing under a key
  that is present replaces the value and keeps the key that was there.
\<close>

fun hashable :: "json \<Rightarrow> bool" where
  "hashable (JArr xs) = False"
| "hashable (JObj kvs) = False"
| "hashable (JDict kvs) = False"
| "hashable _ = True"

fun key_norm :: "json \<Rightarrow> json" where
  "key_norm (JBool b) = JFloat (if b then 1 else 0)"
| "key_norm (JInt i) = JFloat (real_of_int i)"
| "key_norm k = k"

fun pairs_set :: "json \<Rightarrow> json \<Rightarrow> (json \<times> json) list \<Rightarrow> (json \<times> json) list" where
  "pairs_set k v [] = [(k, v)]"
| "pairs_set k v ((k', v') # rest) =
     (if key_norm k' = key_norm k then (k', v) # rest else (k', v') # pairs_set k v rest)"

fun is_str :: "json \<Rightarrow> bool" where
  "is_str (JStr s) = True"
| "is_str _ = False"

fun str_of :: "json \<Rightarrow> string" where
  "str_of (JStr s) = s"
| "str_of _ = []"

definition dict_pairs :: "json \<Rightarrow> (json \<times> json) list option" where
  "dict_pairs x =
     (case x of
        JObj kvs \<Rightarrow> Some (map (\<lambda>(k, v). (JStr k, v)) kvs)
      | JDict kvs \<Rightarrow> Some kvs
      | _ \<Rightarrow> None)"

definition dict_of_pairs :: "(json \<times> json) list \<Rightarrow> json" where
  "dict_of_pairs kvs =
     (if list_all (\<lambda>(k, v). is_str k) kvs then JObj (map (\<lambda>(k, v). (str_of k, v)) kvs)
      else JDict kvs)"

text \<open>
  \<^verbatim>\<open>target.update(source)\<close>. A dictionary is merged in, its values overriding. Any other
  \<open>source\<close> is iterated, and each element must itself be a sequence of length two, a key
  and a value: a two-element array, a string of two characters, or a dictionary of two
  entries, which yields its two keys. An element that is no sequence raises
  \<^verbatim>\<open>TypeError\<close>, one of another length \<^verbatim>\<open>ValueError\<close>, a key that is not hashable
  \<^verbatim>\<open>TypeError\<close>; the first bad element decides. The characters of a non-empty string
  have length one, and a number or \<^verbatim>\<open>None\<close> cannot be iterated.
\<close>

fun pair_of_item :: "json \<Rightarrow> error + (json \<times> json)" where
  "pair_of_item (JArr [k, v]) = (if hashable k then Inr (k, v) else Inl TypeError)"
| "pair_of_item (JArr xs) = Inl ValueError"
| "pair_of_item (JStr [a, b]) = Inr (JStr [a], JStr [b])"
| "pair_of_item (JStr s) = Inl ValueError"
| "pair_of_item (JObj [(k1, v1), (k2, v2)]) = Inr (JStr k1, JStr k2)"
| "pair_of_item (JObj kvs) = Inl ValueError"
| "pair_of_item (JDict [(k1, v1), (k2, v2)]) = Inr (k1, k2)"
| "pair_of_item (JDict kvs) = Inl ValueError"
| "pair_of_item x = Inl TypeError"

fun collect_pairs :: "json list \<Rightarrow> error + (json \<times> json) list" where
  "collect_pairs [] = Inr []"
| "collect_pairs (item # rest) =
     (case pair_of_item item of
        Inl e \<Rightarrow> Inl e
      | Inr p \<Rightarrow> (case collect_pairs rest of Inl e \<Rightarrow> Inl e | Inr ps \<Rightarrow> Inr (p # ps)))"

definition update_items :: "json \<Rightarrow> error + (json \<times> json) list" where
  "update_items source =
     (case source of
        JObj new \<Rightarrow> Inr (map (\<lambda>(k, v). (JStr k, v)) new)
      | JDict new \<Rightarrow> Inr new
      | JArr items \<Rightarrow> collect_pairs items
      | JStr s \<Rightarrow> (if s = [] then Inr [] else Inl ValueError)
      | _ \<Rightarrow> Inl TypeError)"

definition py_update :: "json \<Rightarrow> json \<Rightarrow> error + json" where
  "py_update target source =
     (case dict_pairs target of
        None \<Rightarrow> Inl AttributeError
      | Some kvs \<Rightarrow>
          and_then (update_items source) (\<lambda>items.
            Inr (dict_of_pairs (fold (\<lambda>(k, v). pairs_set k v) items kvs))))"

text \<open>
  The service declares \<^verbatim>\<open>str\<close> and \<^verbatim>\<open>str | None\<close> parameters and stores them in
  string columns, and the handler passes decoded JSON values on unchecked. What becomes
  of a value of another type is up to the database driver and lies outside this model,
  which stops with \<open>DataError\<close> where the handler passes one, and with
  \<open>IntegrityError\<close> for \<^verbatim>\<open>None\<close> as \<^verbatim>\<open>external_id\<close>, which the non-null column refuses.
\<close>

fun as_str :: "json \<Rightarrow> error + string" where
  "as_str (JStr s) = Inr s"
| "as_str JNull = Inl IntegrityError"
| "as_str _ = Inl DataError"

fun as_optional_str :: "json \<Rightarrow> error + string option" where
  "as_optional_str (JStr s) = Inr (Some s)"
| "as_optional_str JNull = Inr None"
| "as_optional_str _ = Inl DataError"

text \<open>
  \<^verbatim>\<open>float(x) / 100 if isinstance(x, (int, float)) else None\<close>; a Python \<^verbatim>\<open>bool\<close> is an
  \<^verbatim>\<open>int\<close>. \<^verbatim>\<open>float\<close> rounds an integer to a double and raises \<^verbatim>\<open>OverflowError\<close> on one
  that is too large; the quotient is rounded again. A decoded JSON float is a double.
\<close>

fun amount_of :: "json \<Rightarrow> error + real option" where
  "amount_of (JInt i) =
     (if double_overflow (real_of_int i) then Inl OverflowError
      else Inr (Some (round_double (round_double (real_of_int i) / 100))))"
| "amount_of (JFloat r) = Inr (Some (round_double (r / 100)))"
| "amount_of (JBool b) = Inr (Some (round_double ((if b then 1 else 0) / 100)))"
| "amount_of x = Inr None"

section \<open>Provider adapter\<close>

text \<open>
  Functions of Python's standard library are parameters of the model: the hexadecimal
  HMAC-SHA256 digest of a message under a key, \<^verbatim>\<open>json.loads\<close> after UTF-8 decoding
  (\<open>None\<close> when it raises) and the \<^verbatim>\<open>UUID\<close> constructor on a string (\<open>None\<close>
  when it raises \<^verbatim>\<open>ValueError\<close>).
\<close>

record pylib =
  hmac_sha256_hexdigest :: "string \<Rightarrow> string \<Rightarrow> string"
  json_loads :: "string \<Rightarrow> json option"
  uuid_of_string :: "string \<Rightarrow> uuid option"

definition CREEM_SIGNATURE_HEADER :: string where
  "CREEM_SIGNATURE_HEADER = ''creem-signature''"

text \<open>\<^verbatim>\<open>hmac.compare_digest\<close> compares two strings only when both are ASCII.\<close>

definition verify_signature :: "pylib \<Rightarrow> string \<Rightarrow> string \<Rightarrow> string \<Rightarrow> error + bool" where
  "verify_signature py payload signature secret =
     (if secret = [] then Inr False
      else
        (let computed = hmac_sha256_hexdigest py secret payload
         in if list_all (\<lambda>c. (of_char c :: nat) < 128) (computed @ signature)
            then Inr (computed = signature)
            else Inl TypeError))"

definition parse_event :: "pylib \<Rightarrow> string \<Rightarrow> error + json" where
  "parse_event py payload =
     (case json_loads py payload of None \<Rightarrow> Inl JSONDecodeError | Some event \<Rightarrow> Inr event)"

section \<open>Webhook handler\<close>

record request =
  body :: string
  headers :: "string \<rightharpoonup> string"

record response =
  status :: string
  reason :: "string option"

definition resolve_pack_credits :: "settings \<Rightarrow> json \<Rightarrow> int option" where
  "resolve_pack_credits s product_id =
     (if \<not> truthy product_id then None
      else
        (case find (\<lambda>pack. map_option JStr (pack_provider_product_id pack) = Some product_id)
                (BILLING_CREDIT_PACKS s) of
           None \<Rightarrow> None
         | Some pack \<Rightarrow> Some (case pack_credits pack of None \<Rightarrow> 0 | Some c \<Rightarrow> c)))"

text \<open>
  Modelled from the spec: \<^verbatim>\<open>get_db_context\<close> of \<^verbatim>\<open>app/db/session.py\<close>, which is
  not among the sources. Each webhook delivery is one unit of work on a transactional
  session: what the block wrote is kept when it ends normally and dropped when it raises.
\<close>

definition get_db_context :: "db \<Rightarrow> (db \<Rightarrow> 'a result) \<Rightarrow> error + ('a \<times> db)" where
  "get_db_context d block =
     (case block d of (Inl e, _) \<Rightarrow> Inl e | (Inr v, d') \<Rightarrow> Inr (v, d'))"

text \<open>
  The arguments that both calls of the handler build from the event:
  \<^verbatim>\<open>external_id=event.get("id", "")\<close> and \<^verbatim>\<open>currency=currency\<close>.
\<close>

definition payment_args :: "json \<Rightarrow> json \<Rightarrow> error + (string \<times> string option)" where
  "payment_args event currency =
     and_then (py_get event ''id'' (JStr '''')) (\<lambda>event_id.
     and_then (as_str event_id) (\<lambda>external_id.
     and_then (as_optional_str currency) (\<lambda>cur.
       Inr (external_id, cur))))"

text \<open>
  \<^verbatim>\<open>provider_subscription_id\<close> and \<^verbatim>\<open>plan_name\<close> as the handler builds them for
  \<^verbatim>\<open>grant_monthly_allowance\<close>.
\<close>

definition subscription_args :: "json \<Rightarrow> json \<Rightarrow> error + (string option \<times> string option)" where
  "subscription_args data product =
     and_then (py_get data ''subscription'' JNull) (\<lambda>subscription.
     and_then (if is_dict subscription
               then py_get (py_or subscription (JObj [])) ''id'' JNull
               else Inr JNull) (\<lambda>subscription_id.
     and_then (py_get product ''name'' JNull) (\<lambda>plan_name.
     and_then (as_optional_str subscription_id) (\<lambda>provider_subscription_id.
     and_then (as_optional_str plan_name) (\<lambda>plan.
       Inr (provider_subscription_id, plan))))))"

text \<open>The body of the \<^verbatim>\<open>async with get_db_context() as db\<close> block of the handler.\<close>

definition dispatch ::
  "settings \<Rightarrow> json \<Rightarrow> json \<Rightarrow> json \<Rightarrow> json \<Rightarrow> json \<Rightarrow> uuid \<Rightarrow> json \<Rightarrow> real option \<Rightarrow> json \<Rightarrow>
   db \<Rightarrow> response result" where
  "dispatch s event data product product_id billing_type user_id metadata amount currency d =
     (if billing_type = JStr ''recurring'' \<or> product_id = JStr (CREEM_SUBSCRIPTION_PRODUCT_ID s)
      then
        (case subscription_args data product of
           Inl e \<Rightarrow> (Inl e, d)
         | Inr (provider_subscription_id, plan) \<Rightarrow>
             (case grant_monthly_allowance s d user_id ''creem'' provider_subscription_id
                     ''active'' plan None None (Some metadata) of
                (Inl e, d1) \<Rightarrow> (Inl e, d1)
              | (Inr _, d1) \<Rightarrow>
                  (case payment_args event currency of
                     Inl e \<Rightarrow> (Inl e, d1)
                   | Inr (external_id, cur) \<Rightarrow>
                       (case record_subscription_payment s d1 user_id ''creem'' external_id
                               amount cur (Some metadata) of
                          (Inl e, d2) \<Rightarrow> (Inl e, d2)
                        | (Inr _, d2) \<Rightarrow> (Inr \<lparr>status = ''ok'', reason = None\<rparr>, d2)))))
      else
        (case resolve_pack_credits s product_id of
           None \<Rightarrow> (Inr \<lparr>status = ''ignored'', reason = Some ''unknown_pack''\<rparr>, d)
         | Some credits \<Rightarrow>
             (if credits = 0
              then (Inr \<lparr>status = ''ignored'', reason = Some ''unknown_pack''\<rparr>, d)
              else
                (case payment_args event currency of
                   Inl e \<Rightarrow> (Inl e, d)
                 | Inr (external_id, cur) \<Rightarrow>
                     (case apply_pack_purchase d user_id ''creem'' external_id credits amount
                             cur (Some metadata) of
                        (Inl e, d1) \<Rightarrow> (Inl e, d1)
                      | (Inr _, d1) \<Rightarrow> (Inr \<lparr>status = ''ok'', reason = None\<rparr>, d1))))))"

text \<open>
  What the handler reads from a \<^verbatim>\<open>checkout.completed\<close> event before it parses the
  user id: the local variables \<^verbatim>\<open>data\<close>, \<^verbatim>\<open>metadata\<close>, \<^verbatim>\<open>user_id_raw\<close>,
  \<^verbatim>\<open>product\<close>, \<^verbatim>\<open>product_id\<close>, \<^verbatim>\<open>billing_type\<close>, \<^verbatim>\<open>amount\<close> and \<^verbatim>\<open>currency\<close>.
\<close>

record checkout =
  c_data :: json
  c_metadata :: json
  c_user_id_raw :: json
  c_product :: json
  c_product_id :: json
  c_billing_type :: json
  c_amount :: "real option"
  c_currency :: json

text \<open>
  The handler from the check of the event type to the computation of the amount. It
  ends in an exception, in one of the two early \<open>ignored\<close> responses, or in the values
  read. None of these lines stands in a \<^verbatim>\<open>try\<close> block.
\<close>

definition read_checkout :: "json \<Rightarrow> error + (response + checkout)" where
  "read_checkout event =
     and_then (py_get event ''eventType'' JNull) (\<lambda>event_type.
     if event_type \<noteq> JStr ''checkout.completed''
     then Inr (Inl \<lparr>status = ''ignored'', reason = None\<rparr>)
     else
     and_then (py_get event ''object'' (JObj [])) (\<lambda>data.
     and_then (py_get data ''metadata'' JNull) (\<lambda>metadata_raw.
     and_then (py_get data ''subscription'' JNull) (\<lambda>subscription.
     and_then (if is_dict subscription then py_get subscription ''metadata'' JNull
               else Inr JNull) (\<lambda>subscription_meta.
     and_then (if truthy subscription_meta
               then py_update (py_or metadata_raw (JObj [])) subscription_meta
               else Inr (py_or metadata_raw (JObj []))) (\<lambda>metadata.
     and_then (py_get metadata ''user_id'' JNull) (\<lambda>direct_id.
     and_then (if truthy direct_id then Inr direct_id
               else py_get metadata ''internal_customer_id'' JNull) (\<lambda>user_id_raw.
     if \<not> truthy user_id_raw
     then Inr (Inl \<lparr>status = ''ignored'', reason = Some ''missing_user_id''\<rparr>)
     else
     and_then (py_get data ''product'' JNull) (\<lambda>product_raw.
     and_then (py_get data ''order'' JNull) (\<lambda>order_raw.
     let product = py_or product_raw (JObj []); order = py_or order_raw (JObj []) in
     and_then (py_get product ''id'' JNull) (\<lambda>product_id.
     and_then (py_get product ''billing_type'' JNull) (\<lambda>product_billing_type.
     and_then (if truthy product_billing_type then Inr product_billing_type
               else py_get order ''type'' JNull) (\<lambda>billing_type.
     and_then (py_get order ''amount'' JNull) (\<lambda>amount_raw.
     and_then (py_get order ''currency'' JNull) (\<lambda>currency.
     and_then (amount_of amount_raw) (\<lambda>amount.
       Inr (Inr \<lparr>c_data = data, c_metadata = metadata, c_user_id_raw = user_id_raw,
                 c_product = product, c_product_id = product_id,
                 c_billing_type = billing_type, c_amount = amount,
                 c_currency = currency\<rparr>)))))))))))))))))"

text \<open>
  The one \<^verbatim>\<open>try\<close> block of the handler, around \<^verbatim>\<open>UUID(user_id_raw)\<close>. The
  \<^verbatim>\<open>ValueError\<close> of a string that is no UUID is caught, which is the result \<open>None\<close>. On
  a value that is not a string the constructor raises \<^verbatim>\<open>AttributeError\<close>, which the
  \<^verbatim>\<open>except ValueError\<close> clause lets pass.
\<close>

definition parse_user_id :: "pylib \<Rightarrow> json \<Rightarrow> error + uuid option" where
  "parse_user_id py user_id_raw =
     (case user_id_raw of
        JStr raw \<Rightarrow> Inr (uuid_of_string py raw)
      | _ \<Rightarrow> Inl AttributeError)"

text \<open>
  The handler: the exception that leaves it, or its JSON response and the store after
  the delivery.
\<close>

definition creem_webhook :: "settings \<Rightarrow> pylib \<Rightarrow> db \<Rightarrow> request \<Rightarrow> error + (response \<times> db)" where
  "creem_webhook s py d req =
     (let payload = body req;
          signature = (case headers req CREEM_SIGNATURE_HEADER of None \<Rightarrow> '''' | Some h \<Rightarrow> h)
      in
      and_then (verify_signature py payload signature (CREEM_WEBHOOK_SECRET s)) (\<lambda>valid.
      if \<not> valid then Inl (HTTPException 400 ''Invalid signature'')
      else
      and_then (parse_event py payload) (\<lambda>event.
      and_then (read_checkout event) (\<lambda>step.
      case step of
        Inl early \<Rightarrow> Inr (early, d)
      | Inr c \<Rightarrow>
          and_then (parse_user_id py (c_user_id_raw c)) (\<lambda>parsed.
          case parsed of
            None \<Rightarrow> Inr (\<lparr>status = ''ignored'', reason = Some ''invalid_user_id''\<rparr>, d)
          | Some user_id \<Rightarrow>
              get_db_context d
                (dispatch s event (c_data c) (c_product c) (c_product_id c)
                   (c_billing_type c) user_id (c_metadata c) (c_amount c)
                   (c_currency c)))))))"

text \<open>
  The wallet that \<open>get_wallet\<close> hands out: the stored row, or the zero-balance row it
  creates for a user that has none.
\<close>

definition current_wallet :: "db \<Rightarrow> uuid \<Rightarrow> credit_wallet" where
  "current_wallet d user_id =
     (case credit_wallets d user_id of
        Some wallet \<Rightarrow> wallet
      | None \<Rightarrow> \<lparr>monthly_remaining = 0, prepaid_balance = 0\<rparr>)"

section \<open>Example values\<close>

text \<open>The billing configuration of the sample application (\<^verbatim>\<open>app/core/config.py\<close>).\<close>

definition sample_settings :: settings where
  "sample_settings =
     \<lparr>BILLING_MONTHLY_CREDITS = 50,
      BILLING_TOKENS_PER_CREDIT = 1000,
      BILLING_CREDIT_PACKS =
        [\<lparr>pack_credits = Some 2000, pack_price_usd = 99 / 10,
          pack_provider_product_id = Some ''''\<rparr>,
         \<lparr>pack_credits = Some 5000, pack_price_usd = 199 / 10,
          pack_provider_product_id = Some ''''\<rparr>],
      BILLING_MODEL_MULTIPLIERS = [''default'' \<mapsto> 1],
      CREEM_WEBHOOK_SECRET = '''',
      CREEM_SUBSCRIPTION_PRODUCT_ID = ''''\<rparr>"

text \<open>The same configuration with a model that is billed at multiplier zero.\<close>

definition free_model_settings :: settings where
  "free_model_settings =
     sample_settings
       \<lparr>BILLING_MODEL_MULTIPLIERS := [''default'' \<mapsto> 1, ''free-model'' \<mapsto> 0]\<rparr>"

text \<open>
  The same configuration with a model billed fifteenfold, and with one billed at the
  smallest positive double.
\<close>

definition premium_settings :: settings where
  "premium_settings =
     sample_settings\<lparr>BILLING_MODEL_MULTIPLIERS := [''default'' \<mapsto> 1, ''premium'' \<mapsto> 15]\<rparr>"

definition tiny_multiplier_settings :: settings where
  "tiny_multiplier_settings =
     sample_settings
       \<lparr>BILLING_MODEL_MULTIPLIERS := [''default'' \<mapsto> 1, ''tiny'' \<mapsto> 1 / 2 ^ denorm_bits]\<rparr>"

text \<open>The sample configuration of a deployment that sells through Creem.\<close>

definition shop_settings :: settings where
  "shop_settings =
     sample_settings
       \<lparr>BILLING_CREDIT_PACKS :=
          [\<lparr>pack_credits = Some 2000, pack_price_usd = 99 / 10,
            pack_provider_product_id = Some ''prod_pack_2000''\<rparr>,
           \<lparr>pack_credits = Some 5000, pack_price_usd = 199 / 10,
            pack_provider_product_id = Some ''prod_pack_5000''\<rparr>],
        CREEM_WEBHOOK_SECRET := ''whsec_test'',
        CREEM_SUBSCRIPTION_PRODUCT_ID := ''prod_sub''\<rparr>"

definition empty_db :: db where
  "empty_db =
     \<lparr>credit_wallets = Map.empty, subscriptions = [], token_ledgers = [],
      payment_transactions = Map.empty\<rparr>"

definition wallet_db :: "uuid \<Rightarrow> int \<Rightarrow> int \<Rightarrow> db" where
  "wallet_db user_id monthly prepaid =
     empty_db\<lparr>credit_wallets :=
       [user_id \<mapsto> \<lparr>monthly_remaining = monthly, prepaid_balance = prepaid\<rparr>]\<rparr>"

text \<open>A store that holds one transaction, a subscription payment of user 9.\<close>

definition paid_db :: db where
  "paid_db =
     empty_db\<lparr>payment_transactions :=
       [''evt_1'' \<mapsto>
          \<lparr>t_user_id = 9, t_provider = ''creem'', t_kind = ''subscription'',
           t_status = ''completed'', t_amount = Some 19, t_currency = Some ''USD'',
           t_credits_granted = 50, t_metadata = None\<rparr>]\<rparr>"

text \<open>
  Request bodies with what \<^verbatim>\<open>json.loads\<close> makes of them: a subscription checkout, an
  event of another type, a checkout with product and order whose user id is no UUID, a
  checkout whose subscription metadata is a string, one whose user id is a number, and
  a subscription checkout whose event id is \<^verbatim>\<open>null\<close>. The last body is not JSON.
\<close>

definition subscription_payload :: string where
  \<open>subscription_payload =
     ''{"id": "evt_1", "eventType": "checkout.completed", "object": {"metadata": {"user_id": "00000000-0000-0000-0000-000000000007"}, "product": {"id": "prod_sub", "name": "Pro", "billing_type": "recurring"}, "order": {"amount": 1900, "currency": "USD"}, "subscription": {"id": "sub_1"}}}''\<close>

definition subscription_event :: json where
  "subscription_event =
     JObj [(''id'', JStr ''evt_1''),
           (''eventType'', JStr ''checkout.completed''),
           (''object'', JObj
              [(''metadata'',
                  JObj [(''user_id'', JStr ''00000000-0000-0000-0000-000000000007'')]),
               (''product'',
                  JObj [(''id'', JStr ''prod_sub''), (''name'', JStr ''Pro''),
                        (''billing_type'', JStr ''recurring'')]),
               (''order'', JObj [(''amount'', JInt 1900), (''currency'', JStr ''USD'')]),
               (''subscription'', JObj [(''id'', JStr ''sub_1'')])])]"

definition ping_payload :: string where
  \<open>ping_payload = ''{"id": "evt_0", "eventType": "ping"}''\<close>

definition ping_event :: json where
  "ping_event = JObj [(''id'', JStr ''evt_0''), (''eventType'', JStr ''ping'')]"

definition stranger_payload :: string where
  \<open>stranger_payload =
     ''{"id": "evt_2", "eventType": "checkout.completed", "object": {"metadata": {"user_id": "alice"}, "product": {"id": "prod_pack_2000", "name": "Pack"}, "order": {"amount": 990, "currency": "USD", "type": "onetime"}}}''\<close>

definition stranger_event :: json where
  "stranger_event =
     JObj [(''id'', JStr ''evt_2''),
           (''eventType'', JStr ''checkout.completed''),
           (''object'', JObj
              [(''metadata'', JObj [(''user_id'', JStr ''alice'')]),
               (''product'', JObj [(''id'', JStr ''prod_pack_2000''), (''name'', JStr ''Pack'')]),
               (''order'', JObj [(''amount'', JInt 990), (''currency'', JStr ''USD''),
                                 (''type'', JStr ''onetime'')])])]"

definition string_metadata_payload :: string where
  \<open>string_metadata_payload =
     ''{"id": "evt_3", "eventType": "checkout.completed", "object": {"metadata": {"user_id": "00000000-0000-0000-0000-000000000007"}, "subscription": {"id": "sub_1", "metadata": "vip"}}}''\<close>

definition string_metadata_event :: json where
  "string_metadata_event =
     JObj [(''id'', JStr ''evt_3''),
           (''eventType'', JStr ''checkout.completed''),
           (''object'', JObj
              [(''metadata'',
                  JObj [(''user_id'', JStr ''00000000-0000-0000-0000-000000000007'')]),
               (''subscription'',
                  JObj [(''id'', JStr ''sub_1''), (''metadata'', JStr ''vip'')])])]"

definition numeric_user_payload :: string where
  \<open>numeric_user_payload =
     ''{"id": "evt_4", "eventType": "checkout.completed", "object": {"metadata": {"user_id": 42}}}''\<close>

definition numeric_user_event :: json where
  "numeric_user_event =
     JObj [(''id'', JStr ''evt_4''),
           (''eventType'', JStr ''checkout.completed''),
           (''object'', JObj [(''metadata'', JObj [(''user_id'', JInt 42)])])]"

definition null_id_payload :: string where
  \<open>null_id_payload =
     ''{"id": null, "eventType": "checkout.completed", "object": {"metadata": {"user_id": "00000000-0000-0000-0000-000000000007"}, "product": {"id": "prod_sub", "name": "Pro", "billing_type": "recurring"}, "order": {"amount": 1900, "currency": "USD"}}}''\<close>

definition null_id_event :: json where
  "null_id_event =
     JObj [(''id'', JNull),
           (''eventType'', JStr ''checkout.completed''),
           (''object'', JObj
              [(''metadata'',
                  JObj [(''user_id'', JStr ''00000000-0000-0000-0000-000000000007'')]),
               (''product'',
                  JObj [(''id'', JStr ''prod_sub''), (''name'', JStr ''Pro''),
                        (''billing_type'', JStr ''recurring'')]),
               (''order'', JObj [(''amount'', JInt 1900), (''currency'', JStr ''USD'')])])]"

definition broken_payload :: string where
  "broken_payload = ''{not json''"

text \<open>
  A stand-in for the library on these inputs: it decodes the JSON bodies to the values
  above and rejects every other text, reads one UUID, and has a fixed digest, which
  \<open>signed\<close> puts into the signature header of a request. \<open>garbled\<close> sends a signature
  with a character that is not ASCII.
\<close>

definition test_py :: pylib where
  "test_py =
     \<lparr>hmac_sha256_hexdigest = (\<lambda>key message. ''5f1d''),
      json_loads = (\<lambda>payload.
         if payload = subscription_payload then Some subscription_event
         else if payload = ping_payload then Some ping_event
         else if payload = stranger_payload then Some stranger_event
         else if payload = string_metadata_payload then Some string_metadata_event
         else if payload = numeric_user_payload then Some numeric_user_event
         else if payload = null_id_payload then Some null_id_event
         else None),
      uuid_of_string = (\<lambda>raw.
         if raw = ''00000000-0000-0000-0000-000000000007'' then Some 7 else None)\<rparr>"

definition signed :: "string \<Rightarrow> request" where
  "signed payload = \<lparr>body = payload, headers = [CREEM_SIGNATURE_HEADER \<mapsto> ''5f1d'']\<rparr>"

definition unsigned :: "string \<Rightarrow> request" where
  "unsigned payload = \<lparr>body = payload, headers = Map.empty\<rparr>"


section \<open>Basic facts\<close>

lemma get_wallet_eq:
  "get_wallet d user_id =
     (Inr (current_wallet d user_id),
      d\<lparr>credit_wallets := (credit_wallets d)(user_id \<mapsto> current_wallet d user_id)\<rparr>)"
  by (cases "credit_wallets d user_id")
     (simp_all add: get_wallet_def get_wallet_by_user_id_def create_wallet_def
        current_wallet_def Let_def map_upd_triv)

lemma commit_usage_eq:
  "commit_usage s d user_id model_name prompt_tokens completion_tokens total_tokens
     provider_request_id metadata =
   (let wallet = current_wallet d user_id;
        cost = calculate_cost_credits s total_tokens model_name;
        monthly_deducted = min (monthly_remaining wallet) cost;
        prepaid_deducted = min (prepaid_balance wallet) (cost - monthly_deducted);
        entry = \<lparr>l_user_id = user_id,
                   l_model_name = model_name,
                   l_prompt_tokens = prompt_tokens,
                   l_completion_tokens = completion_tokens,
                   l_total_tokens = total_tokens,
                   cost_credits = cost,
                   overage_credits = cost - monthly_deducted - prepaid_deducted,
                   l_provider_request_id = provider_request_id,
                   l_metadata = metadata\<rparr>
    in (Inr entry,
        d\<lparr>credit_wallets := (credit_wallets d)(user_id \<mapsto>
             wallet\<lparr>monthly_remaining := monthly_remaining wallet - monthly_deducted,
                    prepaid_balance := prepaid_balance wallet - prepaid_deducted\<rparr>),
          token_ledgers := token_ledgers d @ [entry]\<rparr>))"
  by (simp add: commit_usage_def get_wallet_eq update_wallet_def create_ledger_entry_def
        Let_def)

lemma upsert_subscription_keeps_wallets:
  "\<exists>row d'. upsert_subscription d u p psid st pn mc cps cpe md = (Inr row, d') \<and>
     credit_wallets d' = credit_wallets d"
  by (simp add: upsert_subscription_def Let_def split: option.split)

lemma record_subscription_payment_keeps_wallets:
  "\<exists>d'. record_subscription_payment s d u p e a cur md = (Inr (), d') \<and>
     credit_wallets d' = credit_wallets d"
  by (simp add: record_subscription_payment_def get_transaction_by_external_id_def
        create_transaction_def Let_def split: option.split)

lemma grant_monthly_allowance_wallet:
  "\<exists>row d'. grant_monthly_allowance s d u p psid st pn cps cpe md = (Inr row, d') \<and>
     credit_wallets d' u =
       Some ((current_wallet d u)\<lparr>monthly_remaining := BILLING_MONTHLY_CREDITS s\<rparr>)"
proof -
  define d2 where "d2 = d\<lparr>credit_wallets := (credit_wallets d)(u \<mapsto>
      (current_wallet d u)\<lparr>monthly_remaining := BILLING_MONTHLY_CREDITS s\<rparr>)\<rparr>"
  obtain row d' where
    up: "upsert_subscription d2 u p psid st pn (BILLING_MONTHLY_CREDITS s) cps cpe md
           = (Inr row, d')"
    and w: "credit_wallets d' = credit_wallets d2"
    using upsert_subscription_keeps_wallets by blast
  have "grant_monthly_allowance s d u p psid st pn cps cpe md = (Inr row, d')"
    using up by (simp add: grant_monthly_allowance_def get_wallet_eq update_wallet_def d2_def)
  moreover have "credit_wallets d' u =
      Some ((current_wallet d u)\<lparr>monthly_remaining := BILLING_MONTHLY_CREDITS s\<rparr>)"
    using w by (simp add: d2_def)
  ultimately show ?thesis
    by blast
qed

section \<open>Rounding to a double\<close>

lemma round_half_even_ge_floor: "\<lfloor>y\<rfloor> \<le> round_half_even y"
  by (simp add: round_half_even_def Let_def)

lemma round_half_even_pos_iff: "0 \<le> y \<Longrightarrow> (0 < round_half_even y) = (1 / 2 < y)"
proof -
  assume y: "0 \<le> y"
  show ?thesis
  proof (cases "y < 1")
    case True
    with y have "\<lfloor>y\<rfloor> = 0" by (simp add: floor_eq_iff)
    then show ?thesis by (simp add: round_half_even_def Let_def)
  next
    case False
    then have "1 \<le> \<lfloor>y\<rfloor>" by (simp add: le_floor_iff)
    with round_half_even_ge_floor [of y] False show ?thesis by linarith
  qed
qed

lemma bitlen_floor_binade:
  fixes m :: real
  assumes "2 ^ k \<le> m" and "m < 2 ^ Suc k"
  shows "bitlen \<lfloor>m\<rfloor> = int (Suc k)"
proof -
  have lo: "(2::int) ^ k \<le> \<lfloor>m\<rfloor>"
    using assms(1) by (simp add: le_floor_iff)
  have hi: "\<lfloor>m\<rfloor> < (2::int) ^ Suc k"
    using assms(2) by (simp add: floor_less_iff)
  have "nat (int (Suc k)) = Suc k"
    by simp
  then have "bitlen \<lfloor>m\<rfloor> \<le> int (Suc k)"
    using hi bitlen_le_iff_power [of "\<lfloor>m\<rfloor>" "int (Suc k)"] by (simp del: of_nat_Suc)
  moreover have "\<not> bitlen \<lfloor>m\<rfloor> \<le> int k"
    using lo by (simp add: bitlen_le_iff_power)
  ultimately show ?thesis by linarith
qed

lemma round_double_normal:
  assumes ij: "i \<le> denorm_bits + j"
    and lo: "2 ^ j / 2 ^ i * 2 ^ 52 \<le> \<bar>x\<bar>"
    and hi: "\<bar>x\<bar> < 2 ^ j / 2 ^ i * 2 ^ 53"
  shows "round_double x = sgn x * (of_int (round_half_even (\<bar>x\<bar> * 2 ^ i / 2 ^ j)) * 2 ^ j / 2 ^ i)"
proof -
  define n where "n = denorm_bits + j - i"
  have n: "(2::real) ^ denorm_bits * 2 ^ j = 2 ^ n * 2 ^ i"
    using ij by (simp add: n_def flip: power_add)
  have scale: "2 ^ j / 2 ^ i * (2::real) ^ denorm_bits = 2 ^ n"
    using n by (simp add: field_simps)
  define m where "m = \<bar>x\<bar> * 2 ^ denorm_bits"
  have binade: "2 ^ j / 2 ^ i * 2 ^ k * (2::real) ^ denorm_bits = 2 ^ (n + k)" for k
  proof -
    have "2 ^ j / 2 ^ i * 2 ^ k * (2::real) ^ denorm_bits =
        2 ^ j / 2 ^ i * 2 ^ denorm_bits * 2 ^ k"
      by (simp only: mult.assoc mult.commute mult.left_commute)
    also have "\<dots> = 2 ^ n * 2 ^ k"
      by (simp only: scale)
    finally show ?thesis
      by (simp only: power_add)
  qed
  have "2 ^ j / 2 ^ i * 2 ^ 52 * 2 ^ denorm_bits \<le> m"
    unfolding m_def using lo by (intro mult_right_mono) simp_all
  then have mlo: "2 ^ (n + 52) \<le> m"
    by (simp only: binade)
  have "m < 2 ^ j / 2 ^ i * 2 ^ 53 * 2 ^ denorm_bits"
    unfolding m_def using hi by (intro mult_strict_right_mono) simp_all
  then have "m < 2 ^ (n + 53)"
    by (simp only: binade)
  moreover have "n + 53 = Suc (n + 52)"
    by simp
  ultimately have mhi: "m < 2 ^ Suc (n + 52)"
    by (simp only:)
  have "bitlen \<lfloor>m\<rfloor> = int (Suc (n + 52))"
    using mlo mhi by (rule bitlen_floor_binade)
  then have q: "nat (bitlen \<lfloor>m\<rfloor> - 53) = n"
    by simp
  have arg: "m / 2 ^ n = \<bar>x\<bar> * 2 ^ i / 2 ^ j"
    unfolding m_def using n by (simp add: field_simps)
  have res: "(2::real) ^ n / 2 ^ denorm_bits = 2 ^ j / 2 ^ i"
    using n by (simp add: field_simps)
  have "round_double x =
      sgn x * (of_int (round_half_even (m / 2 ^ n)) * (2 ^ n / 2 ^ denorm_bits))"
    by (simp add: round_double_def Let_def q flip: m_def)
  then show ?thesis
    by (simp add: arg res)
qed

lemma round_double_subnormal:
  assumes "\<bar>x\<bar> * 2 ^ denorm_bits < 2 ^ 52"
  shows "round_double x =
    sgn x * (of_int (round_half_even (\<bar>x\<bar> * 2 ^ denorm_bits)) / 2 ^ denorm_bits)"
proof -
  have "\<lfloor>\<bar>x\<bar> * 2 ^ denorm_bits\<rfloor> < (2::int) ^ 52"
    using assms by (simp add: floor_less_iff)
  then have "bitlen \<lfloor>\<bar>x\<bar> * 2 ^ denorm_bits\<rfloor> \<le> 52"
    by (simp add: bitlen_le_iff_power)
  then have "nat (bitlen \<lfloor>\<bar>x\<bar> * 2 ^ denorm_bits\<rfloor> - 53) = 0"
    by simp
  then show ?thesis
    by (simp add: round_double_def Let_def)
qed

lemma round_double_pos_iff:
  "(0 < round_double x) = (1 / (2 * 2 ^ denorm_bits) < x)"
proof (cases "0 < x")
  case False
  then have s: "sgn x \<le> 0" by (simp add: sgn_if)
  have nn: "0 \<le> round_half_even y" if "0 \<le> y" for y
  proof -
    have "0 \<le> \<lfloor>y\<rfloor>" using that by simp
    then show ?thesis using round_half_even_ge_floor [of y] by linarith
  qed
  have "round_double x \<le> 0"
    unfolding round_double_def Let_def
    by (rule mult_nonpos_nonneg [OF s]) (simp add: nn)
  moreover have "\<not> 1 / (2 * 2 ^ denorm_bits) < x"
    using False by (smt (verit) divide_pos_pos zero_less_power)
  ultimately show ?thesis by simp
next
  case True
  define m where "m = x * 2 ^ denorm_bits"
  have mpos: "0 < m" using True by (simp add: m_def)
  have rhs: "(1 / (2 * 2 ^ denorm_bits) < x) = (1 / 2 < m)"
    by (simp add: m_def field_simps)
  show ?thesis
  proof (cases "m < 2 ^ 52")
    case small: True
    have "round_double x = of_int (round_half_even m) / 2 ^ denorm_bits"
      using round_double_subnormal [of x] small True by (simp add: m_def)
    then have "(0 < round_double x) = (0 < round_half_even m)"
      by (simp add: zero_less_divide_iff)
    then show ?thesis
      using round_half_even_pos_iff [of m] mpos rhs by simp
  next
    case big: False
    define b where "b = bitlen \<lfloor>m\<rfloor>"
    have fl: "0 < \<lfloor>m\<rfloor>" using big by (simp add: not_less le_floor_iff order_trans [of 1])
    have "(2::int) ^ nat (b - 1) \<le> \<lfloor>m\<rfloor>"
      using bitlen_bounds [OF fl] by (simp add: b_def)
    then have upper: "(2::real) ^ nat (b - 1) \<le> m"
      by (metis of_int_floor_le of_int_le_iff of_int_numeral of_int_power order_trans)
    have "(2::real) ^ nat (b - 53) \<le> 2 ^ nat (b - 1)"
      by (rule power_increasing) auto
    then have "(2::real) ^ nat (b - 53) \<le> m"
      using upper by (rule order_trans)
    then have "1 \<le> m / 2 ^ nat (b - 53)"
      by (simp add: le_divide_eq)
    then have "1 \<le> \<lfloor>m / 2 ^ nat (b - 53)\<rfloor>"
      by (simp add: le_floor_iff)
    then have "1 \<le> round_half_even (m / 2 ^ nat (b - 53))"
      using round_half_even_ge_floor order_trans by blast
    then have "0 < round_double x"
      using True by (simp add: round_double_def Let_def m_def b_def sgn_if zero_less_mult_iff
          zero_less_divide_iff)
    moreover have "1 / 2 < m" using big by (simp add: not_less order_trans [of _ 1] less_le_trans [of _ 1])
    ultimately show ?thesis using rhs by simp
  qed
qed

lemma round_double_nonneg: "0 \<le> x \<Longrightarrow> 0 \<le> round_double x"
proof -
  assume x: "0 \<le> x"
  have nn: "0 \<le> round_half_even y" if "0 \<le> y" for y
  proof -
    have "0 \<le> \<lfloor>y\<rfloor>" using that by simp
    then show ?thesis using round_half_even_ge_floor [of y] by linarith
  qed
  have s: "0 \<le> sgn x" using x by (simp add: sgn_if)
  show ?thesis
    unfolding round_double_def Let_def
    by (rule mult_nonneg_nonneg [OF s]) (simp add: nn)
qed

lemma round_double_zero: "round_double 0 = 0"
  by (simp add: round_double_def)

lemma not_double_overflow: "\<bar>x\<bar> < 2 ^ 53 \<Longrightarrow> \<not> double_overflow x"
  by (simp add: double_overflow_def)

text \<open>The doubles nearest to the numbers of the examples.\<close>

lemma rd_one: "round_double 1 = 1"
  using round_double_normal [of 52 0 1] by (simp add: denorm_bits_def round_half_even_def)

lemma rd_5: "round_double 5 = 5"
  using round_double_normal [of 50 0 5] by (simp add: denorm_bits_def round_half_even_def)

lemma rd_5_2: "round_double (5 / 2) = 5 / 2"
  using round_double_normal [of 51 0 "5 / 2"]
  by (simp add: denorm_bits_def round_half_even_def)

lemma rd_83_5: "round_double (83 / 5) = 4672484613396890 / 2 ^ 48"
  using round_double_normal [of 48 0 "83 / 5"]
  by (simp add: denorm_bits_def round_half_even_def)

text \<open>The product of the double nearest to 16.6 with 15, and the double nearest to it.\<close>

lemma rd_product:
  "round_double (35043634600476675 / 140737488355328) = 8760908650119169 / 35184372088832"
  using round_double_normal [of 45 0 "35043634600476675 / 140737488355328"]
  by (simp add: denorm_bits_def round_half_even_def)

lemma rd_milli: "round_double (1 / 1000) = 4611686018427388 / 2 ^ 62"
  using round_double_normal [of 62 0 "1 / 1000"]
  by (simp add: denorm_bits_def round_half_even_def)

text \<open>The settings of the examples, field by field.\<close>

lemma sample_tokens_per_credit: "BILLING_TOKENS_PER_CREDIT sample_settings = 1000"
  by (simp add: sample_settings_def)

lemma sample_multiplier: "get_model_multiplier sample_settings None = 1"
  by (simp add: get_model_multiplier_def sample_settings_def)

lemma premium_tokens_per_credit: "BILLING_TOKENS_PER_CREDIT premium_settings = 1000"
  by (simp add: premium_settings_def sample_settings_def)

lemma premium_multiplier: "get_model_multiplier premium_settings (Some ''premium'') = 15"
  by (simp add: get_model_multiplier_def premium_settings_def sample_settings_def)

lemma free_tokens_per_credit: "BILLING_TOKENS_PER_CREDIT free_model_settings = 1000"
  by (simp add: free_model_settings_def sample_settings_def)

lemma free_multiplier: "get_model_multiplier free_model_settings (Some ''free-model'') = 0"
  by (simp add: get_model_multiplier_def free_model_settings_def sample_settings_def)

lemma tiny_tokens_per_credit: "BILLING_TOKENS_PER_CREDIT tiny_multiplier_settings = 1000"
  by (simp add: tiny_multiplier_settings_def sample_settings_def)

lemma tiny_multiplier:
  "get_model_multiplier tiny_multiplier_settings (Some ''tiny'') = 1 / 2 ^ denorm_bits"
  by (simp add: get_model_multiplier_def tiny_multiplier_settings_def sample_settings_def)

lemma shop_settings_fields:
  "BILLING_MONTHLY_CREDITS shop_settings = 50"
  "BILLING_TOKENS_PER_CREDIT shop_settings = 1000"
  "CREEM_WEBHOOK_SECRET shop_settings = ''whsec_test''"
  "CREEM_SUBSCRIPTION_PRODUCT_ID shop_settings = ''prod_sub''"
  "get_model_multiplier shop_settings None = 1"
  by (simp_all add: shop_settings_def sample_settings_def get_model_multiplier_def)

lemma sample_cost_5000: "calculate_cost_credits sample_settings 5000 None = 5"
  by (simp add: calculate_cost_credits_def sample_tokens_per_credit sample_multiplier rd_5)

lemma shop_cost_2500: "calculate_cost_credits shop_settings 2500 None = 3"
  by (simp add: calculate_cost_credits_def shop_settings_fields rd_5_2)

lemma signed_is_valid:
  "verify_signature test_py (body (signed payload))
     (case headers (signed payload) CREEM_SIGNATURE_HEADER of None \<Rightarrow> '''' | Some h \<Rightarrow> h)
     (CREEM_WEBHOOK_SECRET shop_settings) = Inr True"
  by (simp add: verify_signature_def test_py_def signed_def shop_settings_fields
        CREEM_SIGNATURE_HEADER_def)

lemmas decoding =
  parse_event_def test_py_def signed_def subscription_payload_def ping_payload_def
  stranger_payload_def string_metadata_payload_def numeric_user_payload_def
  null_id_payload_def broken_payload_def ping_event_def

lemmas reading =
  read_checkout_def and_then_def py_get_def py_or_def py_update_def dict_pairs_def
  update_items_def dict_of_pairs_def Let_def

lemmas webhook_evaluation =
  creem_webhook_def verify_signature_def decoding reading parse_user_id_def dispatch_def
  subscription_args_def payment_args_def get_db_context_def resolve_pack_credits_def
  grant_monthly_allowance_def record_subscription_payment_def apply_pack_purchase_def
  get_wallet_eq update_wallet_def upsert_subscription_def get_latest_subscription_def
  create_transaction_def get_transaction_by_external_id_def commit_usage_eq
  shop_cost_2500 shop_settings_fields not_double_overflow current_wallet_def
  subscription_event_def stranger_event_def unsigned_def empty_db_def
  CREEM_SIGNATURE_HEADER_def

section \<open>Usage commit\<close>

text \<open>
  C1. For every wallet with \<open>monthly_remaining \<ge> 0\<close> and \<open>prepaid_balance \<ge> 0\<close> and every
  \<open>total_tokens\<close>, \<open>commit_usage\<close> returns a ledger entry (it never fails) and deducts in
  strict order: \<open>monthly_deducted = min monthly_remaining cost\<close>, then
  \<open>prepaid_deducted = min prepaid_balance (cost - monthly_deducted)\<close>, the rest becoming
  \<open>overage_credits\<close>. The three parts add up to \<open>cost_credits\<close>, and neither wallet field
  ends negative.
\<close>

theorem commit_usage_conservation:
  assumes "0 \<le> monthly_remaining (current_wallet d user_id)"
    and "0 \<le> prepaid_balance (current_wallet d user_id)"
  shows "\<exists>entry d'.
      commit_usage s d user_id model_name prompt_tokens completion_tokens total_tokens
        provider_request_id metadata = (Inr entry, d') \<and>
      (let before = current_wallet d user_id;
           after = current_wallet d' user_id;
           cost = calculate_cost_credits s total_tokens model_name;
           monthly_deducted = min (monthly_remaining before) cost;
           prepaid_deducted = min (prepaid_balance before) (cost - monthly_deducted)
       in credit_wallets d' user_id = Some after \<and>
          cost_credits entry = cost \<and>
          monthly_remaining after = monthly_remaining before - monthly_deducted \<and>
          prepaid_balance after = prepaid_balance before - prepaid_deducted \<and>
          overage_credits entry = cost - monthly_deducted - prepaid_deducted \<and>
          monthly_deducted + prepaid_deducted + overage_credits entry = cost_credits entry \<and>
          0 \<le> monthly_remaining after \<and> 0 \<le> prepaid_balance after \<and>
          0 \<le> overage_credits entry)"
  using assms by (simp add: commit_usage_eq Let_def current_wallet_def)

text \<open>
  The scenario of a wallet holding 2 monthly and 1 prepaid credits and a cost of 5: the
  wallet ends at 0 and 0, with an overage of 2.
\<close>

theorem commit_usage_conservation_witness:
  "0 \<le> monthly_remaining (current_wallet (wallet_db 7 2 1) 7) \<and>
   0 \<le> prepaid_balance (current_wallet (wallet_db 7 2 1) 7) \<and>
   (\<exists>entry d'.
      commit_usage sample_settings (wallet_db 7 2 1) 7 None None None 5000 None None
        = (Inr entry, d') \<and>
      credit_wallets d' 7 = Some (current_wallet d' 7) \<and>
      monthly_remaining (current_wallet d' 7) = 0 \<and>
      prepaid_balance (current_wallet d' 7) = 0 \<and>
      cost_credits entry = 5 \<and> overage_credits entry = 2)"
proof -
  have w: "current_wallet (wallet_db 7 2 1) 7 = \<lparr>monthly_remaining = 2, prepaid_balance = 1\<rparr>"
    by (simp add: current_wallet_def wallet_db_def empty_db_def)
  have h1: "0 \<le> monthly_remaining (current_wallet (wallet_db 7 2 1) 7)"
    by (simp add: w)
  have h2: "0 \<le> prepaid_balance (current_wallet (wallet_db 7 2 1) 7)"
    by (simp add: w)
  from commit_usage_conservation [OF h1 h2, of sample_settings None None None 5000 None None]
  obtain entry d' where
    "commit_usage sample_settings (wallet_db 7 2 1) 7 None None None 5000 None None
       = (Inr entry, d')"
    and "credit_wallets d' 7 = Some (current_wallet d' 7)"
    and "monthly_remaining (current_wallet d' 7) = 0"
    and "prepaid_balance (current_wallet d' 7) = 0"
    and "cost_credits entry = 5" and "overage_credits entry = 2"
    by (auto simp add: Let_def sample_cost_5000 w)
  then show ?thesis
    using h1 h2 by (intro conjI exI [of _ entry] exI [of _ d']) auto
qed

text \<open>
  C9. For every user whose wallet balances are not negative and every \<open>total_tokens \<le> 0\<close>,
  \<open>commit_usage\<close> still appends and returns a ledger entry, with \<open>cost_credits = 0\<close> and
  \<open>overage_credits = 0\<close>, and every wallet keeps both of its balances: zero-cost usage is
  recorded, not skipped.
\<close>

theorem commit_usage_zero_cost:
  assumes "total_tokens \<le> 0"
    and "0 \<le> monthly_remaining (current_wallet d user_id)"
    and "0 \<le> prepaid_balance (current_wallet d user_id)"
  shows "\<exists>entry d'.
      commit_usage s d user_id model_name prompt_tokens completion_tokens total_tokens
        provider_request_id metadata = (Inr entry, d') \<and>
      token_ledgers d' = token_ledgers d @ [entry] \<and>
      l_user_id entry = user_id \<and> l_total_tokens entry = total_tokens \<and>
      cost_credits entry = 0 \<and> overage_credits entry = 0 \<and>
      current_wallet d' = current_wallet d"
  using assms
  by (auto simp add: commit_usage_eq Let_def calculate_cost_credits_def fun_eq_iff
        current_wallet_def)

theorem commit_usage_zero_cost_witness:
  "(0::int) \<le> 0 \<and>
   0 \<le> monthly_remaining (current_wallet (wallet_db 7 2 1) 7) \<and>
   0 \<le> prepaid_balance (current_wallet (wallet_db 7 2 1) 7) \<and>
   (\<exists>entry d'.
      commit_usage sample_settings (wallet_db 7 2 1) 7 None None None 0 None None
        = (Inr entry, d') \<and>
      token_ledgers d' = token_ledgers (wallet_db 7 2 1) @ [entry] \<and>
      cost_credits entry = 0 \<and> overage_credits entry = 0 \<and>
      current_wallet d' 7 = \<lparr>monthly_remaining = 2, prepaid_balance = 1\<rparr>)"
proof -
  have w: "current_wallet (wallet_db 7 2 1) 7 = \<lparr>monthly_remaining = 2, prepaid_balance = 1\<rparr>"
    by (simp add: current_wallet_def wallet_db_def empty_db_def)
  have h0: "(0::int) \<le> 0"
    by simp
  have h1: "0 \<le> monthly_remaining (current_wallet (wallet_db 7 2 1) 7)"
    by (simp add: w)
  have h2: "0 \<le> prepaid_balance (current_wallet (wallet_db 7 2 1) 7)"
    by (simp add: w)
  from commit_usage_zero_cost [OF h0 h1 h2, of sample_settings None None None None None]
  obtain entry d' where
    "commit_usage sample_settings (wallet_db 7 2 1) 7 None None None 0 None None
       = (Inr entry, d')"
    and "token_ledgers d' = token_ledgers (wallet_db 7 2 1) @ [entry]"
    and "cost_credits entry = 0" and "overage_credits entry = 0"
    and "current_wallet d' = current_wallet (wallet_db 7 2 1)"
    by blast
  then show ?thesis
    using h1 h2 w by (intro conjI exI [of _ entry] exI [of _ d']) auto
qed

section \<open>Cost in credits\<close>

text \<open>
  C4, as the claim states it, fails: for a model whose configured multiplier is zero, a
  positive number of tokens costs nothing.
\<close>

theorem zero_multiplier_cost_counterexample:
  "(0::int) < 1000 \<and>
   calculate_cost_credits free_model_settings 1000 (Some ''free-model'') = 0"
  by (simp add: calculate_cost_credits_def get_model_multiplier_def free_model_settings_def
        sample_settings_def round_double_zero)

text \<open>
  C4, amended. For every model name, \<open>calculate_cost_credits\<close> returns 0 when
  \<open>total_tokens \<le> 0\<close>. Otherwise, as long as neither the quotient nor the product leaves
  the range of a double, it returns the ceiling of
  \<open>(total_tokens / tokens_per_credit) * multiplier\<close> as double arithmetic computes it,
  the quotient and the product each rounded to the nearest double, where
  \<open>tokens_per_credit\<close> is the configured value raised to at least 1. That result is
  strictly positive exactly when the rounded quotient times the multiplier exceeds half
  the smallest positive double: never for a multiplier that is zero or negative, and for
  a positive multiplier unless the product underflows to zero.
\<close>

theorem calculate_cost_credits_rounds_up:
  "(total_tokens \<le> 0 \<longrightarrow> calculate_cost_credits s total_tokens model_name = 0) \<and>
   (0 < total_tokens \<and> cost_in_range s total_tokens model_name \<longrightarrow>
      calculate_cost_credits s total_tokens model_name =
        \<lceil>round_double
           (round_double
              (real_of_int total_tokens / real_of_int (max (BILLING_TOKENS_PER_CREDIT s) 1))
            * get_model_multiplier s model_name)\<rceil> \<and>
      (0 < calculate_cost_credits s total_tokens model_name) =
        (1 / (2 * 2 ^ denorm_bits) <
           round_double
             (real_of_int total_tokens / real_of_int (max (BILLING_TOKENS_PER_CREDIT s) 1))
           * get_model_multiplier s model_name)) \<and>
   (0 < total_tokens \<and> cost_in_range s total_tokens model_name \<and>
    get_model_multiplier s model_name \<le> 0 \<longrightarrow>
      calculate_cost_credits s total_tokens model_name \<le> 0)"
proof -
  let ?q = "round_double
    (real_of_int total_tokens / real_of_int (max (BILLING_TOKENS_PER_CREDIT s) 1))"
  let ?m = "get_model_multiplier s model_name"
  have cost: "calculate_cost_credits s total_tokens model_name = \<lceil>round_double (?q * ?m)\<rceil>"
    if "0 < total_tokens"
    using that by (simp add: calculate_cost_credits_def Let_def)
  have pos: "(0 < \<lceil>round_double (?q * ?m)\<rceil>) = (1 / (2 * 2 ^ denorm_bits) < ?q * ?m)"
    by (simp add: round_double_pos_iff)
  have "0 \<le> ?q" if "0 < total_tokens"
    using that by (intro round_double_nonneg) simp
  then have "?q * ?m \<le> 0" if "0 < total_tokens" "?m \<le> 0"
    using that by (simp add: mult_nonneg_nonpos)
  moreover have "0 < 1 / (2 * (2::real) ^ denorm_bits)"
    by simp
  ultimately have "\<not> 1 / (2 * 2 ^ denorm_bits) < ?q * ?m" if "0 < total_tokens" "?m \<le> 0"
    using that by (smt (verit))
  then have "\<lceil>round_double (?q * ?m)\<rceil> \<le> 0" if "0 < total_tokens" "?m \<le> 0"
    using that pos by linarith
  then show ?thesis
    using cost pos by (simp add: calculate_cost_credits_def)
qed

text \<open>
  No tokens cost nothing. 2500 tokens at 1000 tokens per credit and multiplier 1 cost 3
  credits. 16600 tokens at multiplier 15 cost 250 credits, because the double nearest to
  16.6 times 15 lies just above 249. 1000 tokens of the model of multiplier zero cost
  nothing, and neither does one token at the smallest positive multiplier, whose
  product with 0.001 underflows.
\<close>

theorem calculate_cost_credits_rounds_up_witness:
  "(0::int) \<le> 0 \<and> calculate_cost_credits sample_settings 0 None = 0 \<and>
   (0::int) < 2500 \<and> cost_in_range sample_settings 2500 None \<and>
   calculate_cost_credits sample_settings 2500 None = 3 \<and>
   0 < calculate_cost_credits sample_settings 2500 None \<and>
   (0::int) < 16600 \<and> cost_in_range premium_settings 16600 (Some ''premium'') \<and>
   calculate_cost_credits premium_settings 16600 (Some ''premium'') = 250 \<and>
   (0::int) < 1000 \<and> cost_in_range free_model_settings 1000 (Some ''free-model'') \<and>
   get_model_multiplier free_model_settings (Some ''free-model'') \<le> 0 \<and>
   calculate_cost_credits free_model_settings 1000 (Some ''free-model'') \<le> 0 \<and>
   (0::int) < 1 \<and> cost_in_range tiny_multiplier_settings 1 (Some ''tiny'') \<and>
   0 < get_model_multiplier tiny_multiplier_settings (Some ''tiny'') \<and>
   \<not> 0 < calculate_cost_credits tiny_multiplier_settings 1 (Some ''tiny'')"
proof -
  have zero: "calculate_cost_credits sample_settings 0 None = 0"
    using calculate_cost_credits_rounds_up [of 0 sample_settings None] by simp
  have r1: "cost_in_range sample_settings 2500 None"
    by (simp add: cost_in_range_def sample_tokens_per_credit sample_multiplier rd_5_2
          not_double_overflow)
  have c1: "calculate_cost_credits sample_settings 2500 None = 3"
    using calculate_cost_credits_rounds_up [of 2500 sample_settings None] r1
    by (simp add: sample_tokens_per_credit sample_multiplier rd_5_2)
  have p1: "0 < calculate_cost_credits sample_settings 2500 None"
    using calculate_cost_credits_rounds_up [of 2500 sample_settings None] r1
    by (simp add: sample_tokens_per_credit sample_multiplier rd_5_2)
  have r2: "cost_in_range premium_settings 16600 (Some ''premium'')"
    by (simp add: cost_in_range_def premium_tokens_per_credit premium_multiplier rd_83_5
          not_double_overflow)
  have c2: "calculate_cost_credits premium_settings 16600 (Some ''premium'') = 250"
    using calculate_cost_credits_rounds_up [of 16600 premium_settings "Some ''premium''"] r2
    by (simp add: premium_tokens_per_credit premium_multiplier rd_83_5 rd_product)
  have r3: "cost_in_range free_model_settings 1000 (Some ''free-model'')"
    by (simp add: cost_in_range_def free_tokens_per_credit free_multiplier rd_one
          not_double_overflow)
  have c3: "calculate_cost_credits free_model_settings 1000 (Some ''free-model'') \<le> 0"
    using calculate_cost_credits_rounds_up [of 1000 free_model_settings "Some ''free-model''"] r3
    by (simp add: free_multiplier round_double_zero)
  have small: "\<bar>4611686018427388 / 2 ^ 62 * (1 / 2 ^ denorm_bits)\<bar> < (2::real) ^ 53"
  proof -
    have "(1::real) / 2 ^ denorm_bits \<le> 1"
      by simp
    then have "4611686018427388 / 2 ^ 62 * ((1::real) / 2 ^ denorm_bits)
        \<le> 4611686018427388 / 2 ^ 62 * 1"
      by (intro mult_left_mono) simp_all
    then show ?thesis
      by simp
  qed
  have r4: "cost_in_range tiny_multiplier_settings 1 (Some ''tiny'')"
    using small
    by (simp add: cost_in_range_def tiny_tokens_per_credit tiny_multiplier rd_milli
          not_double_overflow)
  have t4: "(0::int) < 1"
    by simp
  from calculate_cost_credits_rounds_up [of 1 tiny_multiplier_settings "Some ''tiny''"] t4 r4
  have iff: "(0 < calculate_cost_credits tiny_multiplier_settings 1 (Some ''tiny'')) =
      (1 / (2 * 2 ^ denorm_bits) <
         round_double
           (real_of_int 1 / real_of_int (max (BILLING_TOKENS_PER_CREDIT tiny_multiplier_settings) 1))
         * get_model_multiplier tiny_multiplier_settings (Some ''tiny''))"
    by blast
  have under: "\<not> 1 / (2 * 2 ^ denorm_bits) <
      round_double
        (real_of_int 1 / real_of_int (max (BILLING_TOKENS_PER_CREDIT tiny_multiplier_settings) 1))
      * get_model_multiplier tiny_multiplier_settings (Some ''tiny'')"
    by (simp add: tiny_tokens_per_credit tiny_multiplier rd_milli field_simps)
  have c4: "\<not> 0 < calculate_cost_credits tiny_multiplier_settings 1 (Some ''tiny'')"
    using iff under by blast
  show ?thesis
    using zero r1 c1 p1 r2 c2 r3 c3 r4 c4
    by (simp add: free_multiplier tiny_multiplier)
qed

section \<open>Monthly allowance\<close>

text \<open>
  C5. For every prior wallet state, \<open>grant_monthly_allowance\<close> sets \<open>monthly_remaining\<close>
  to exactly the configured monthly credit amount, whatever it was before: it is a reset,
  not an addition, so applying it twice in a row yields the same \<open>monthly_remaining\<close> as
  applying it once. It leaves \<open>prepaid_balance\<close> unchanged.
\<close>

theorem grant_monthly_allowance_resets:
  "\<exists>row1 d1 row2 d2.
     grant_monthly_allowance s d u p psid st pn cps cpe md = (Inr row1, d1) \<and>
     grant_monthly_allowance s d1 u p psid st pn cps cpe md = (Inr row2, d2) \<and>
     credit_wallets d1 u = Some (current_wallet d1 u) \<and>
     monthly_remaining (current_wallet d1 u) = BILLING_MONTHLY_CREDITS s \<and>
     prepaid_balance (current_wallet d1 u) = prepaid_balance (current_wallet d u) \<and>
     monthly_remaining (current_wallet d2 u) = monthly_remaining (current_wallet d1 u) \<and>
     prepaid_balance (current_wallet d2 u) = prepaid_balance (current_wallet d u)"
proof -
  from grant_monthly_allowance_wallet [of s d u p psid st pn cps cpe md]
  obtain row1 d1 where
    g1: "grant_monthly_allowance s d u p psid st pn cps cpe md = (Inr row1, d1)"
    and w1: "credit_wallets d1 u =
        Some ((current_wallet d u)\<lparr>monthly_remaining := BILLING_MONTHLY_CREDITS s\<rparr>)"
    by blast
  from grant_monthly_allowance_wallet [of s d1 u p psid st pn cps cpe md]
  obtain row2 d2 where
    g2: "grant_monthly_allowance s d1 u p psid st pn cps cpe md = (Inr row2, d2)"
    and w2: "credit_wallets d2 u =
        Some ((current_wallet d1 u)\<lparr>monthly_remaining := BILLING_MONTHLY_CREDITS s\<rparr>)"
    by blast
  show ?thesis
    using g1 g2 w1 w2 by (simp add: current_wallet_def)
qed

section \<open>Admission check\<close>

text \<open>
  C6, as the claim states it, fails in its last part: \<open>precheck\<close> is not free of store
  writes. For a user that has no wallet yet it creates the zero-balance wallet row, here
  on an estimate of no tokens, which it admits at cost 0.
\<close>

theorem precheck_creates_wallet_counterexample:
  "precheck sample_settings empty_db 7 None 0 =
     (Inr 0,
      empty_db\<lparr>credit_wallets := [7 \<mapsto> \<lparr>monthly_remaining = 0, prepaid_balance = 0\<rparr>]\<rparr>) \<and>
   credit_wallets empty_db 7 = None \<and>
   credit_wallets (snd (precheck sample_settings empty_db 7 None 0)) 7 =
     Some \<lparr>monthly_remaining = 0, prepaid_balance = 0\<rparr>"
  by (simp add: precheck_def get_wallet_eq Let_def current_wallet_def empty_db_def
        calculate_cost_credits_def)

text \<open>
  C6, amended. \<open>precheck\<close> raises \<open>PaymentRequiredError\<close> carrying
  \<open>required_credits = cost\<close> and \<open>available_credits = monthly_remaining + prepaid_balance\<close>
  if and only if \<open>monthly_remaining + prepaid_balance < cost\<close>, and otherwise returns
  \<open>cost\<close>. It deducts nothing: in either outcome every wallet keeps both balances, and
  the subscriptions, the ledger and the transactions are unchanged. Its one store write
  is that of \<open>get_wallet\<close>, which creates the zero-balance wallet row of a user that has
  none.
\<close>

theorem precheck_outcome:
  "(let wallet = current_wallet d user_id;
        cost = calculate_cost_credits s estimated_tokens model_name;
        available = monthly_remaining wallet + prepaid_balance wallet;
        outcome = precheck s d user_id model_name estimated_tokens
    in fst outcome =
         (if available < cost then Inl (PaymentRequiredError cost available) else Inr cost) \<and>
       snd outcome = d\<lparr>credit_wallets := (credit_wallets d)(user_id \<mapsto> wallet)\<rparr> \<and>
       current_wallet (snd outcome) = current_wallet d \<and>
       subscriptions (snd outcome) = subscriptions d \<and>
       token_ledgers (snd outcome) = token_ledgers d \<and>
       payment_transactions (snd outcome) = payment_transactions d)"
  by (auto simp add: precheck_def get_wallet_eq Let_def fun_eq_iff current_wallet_def)

section \<open>Payments\<close>

text \<open>
  C2. For every wallet state and every \<open>external_id\<close>, calling \<open>apply_pack_purchase\<close>
  twice with the same \<open>external_id\<close> changes \<open>prepaid_balance\<close> exactly once: after the
  first call a transaction with that \<open>external_id\<close> exists, and the second call, whatever
  its other arguments, is a no-op that updates no wallet and records no second
  transaction.
\<close>

theorem apply_pack_purchase_idempotent:
  "\<exists>d1. apply_pack_purchase d u p e c a cur md = (Inr (), d1) \<and>
      apply_pack_purchase d1 u2 p2 e c2 a2 cur2 md2 = (Inr (), d1) \<and>
      payment_transactions d1 e \<noteq> None \<and>
      prepaid_balance (current_wallet d1 u) =
        prepaid_balance (current_wallet d u) +
          (if payment_transactions d e = None then c else 0)"
  by (cases "payment_transactions d e")
     (simp_all add: apply_pack_purchase_def get_transaction_by_external_id_def get_wallet_eq
        update_wallet_def create_transaction_def Let_def current_wallet_def)

text \<open>
  C10. The idempotency guard of \<open>apply_pack_purchase\<close> and of
  \<open>record_subscription_payment\<close> is keyed on \<open>external_id\<close> alone: if any transaction with
  that \<open>external_id\<close> exists, whoever its user and whatever its kind, the call is a no-op
  and grants no credits to the calling user.
\<close>

theorem guard_keyed_on_external_id:
  assumes "get_transaction_by_external_id d external_id = Some t"
  shows "apply_pack_purchase d u p external_id c a cur md = (Inr (), d) \<and>
         record_subscription_payment s d u p external_id a cur md = (Inr (), d)"
  using assms by (simp add: apply_pack_purchase_def record_subscription_payment_def)

text \<open>
  A pack purchase of user 7 under the \<open>external_id\<close> of a subscription payment of user 9
  changes nothing.
\<close>

theorem guard_keyed_on_external_id_witness:
  "(\<exists>t. get_transaction_by_external_id paid_db ''evt_1'' = Some t \<and>
        t_user_id t = 9 \<and> t_kind t = ''subscription'') \<and>
   apply_pack_purchase paid_db 7 ''creem'' ''evt_1'' 2000 (Some (99 / 10)) (Some ''USD'') None
     = (Inr (), paid_db) \<and>
   record_subscription_payment shop_settings paid_db 7 ''creem'' ''evt_1'' (Some 19)
     (Some ''USD'') None = (Inr (), paid_db) \<and>
   current_wallet paid_db 7 = \<lparr>monthly_remaining = 0, prepaid_balance = 0\<rparr>"
proof -
  obtain t where h: "get_transaction_by_external_id paid_db ''evt_1'' = Some t"
    and t: "t_user_id t = 9" "t_kind t = ''subscription''"
    by (simp add: get_transaction_by_external_id_def paid_db_def)
  have "current_wallet paid_db 7 = \<lparr>monthly_remaining = 0, prepaid_balance = 0\<rparr>"
    by (simp add: current_wallet_def paid_db_def empty_db_def)
  then show ?thesis
    using h t guard_keyed_on_external_id [OF h] by blast
qed

section \<open>Webhook deliveries\<close>

text \<open>
  C7. For every validly signed webhook payload that decodes to an event whose type is
  not \<open>checkout.completed\<close>, the handler returns the response with status \<open>ignored\<close> and
  writes nothing: wallets, ledger, subscriptions and transactions are all unchanged.
\<close>

theorem ignores_other_event_types:
  assumes "verify_signature py (body req)
             (case headers req CREEM_SIGNATURE_HEADER of None \<Rightarrow> '''' | Some h \<Rightarrow> h)
             (CREEM_WEBHOOK_SECRET s) = Inr True"
    and "json_loads py (body req) = Some (JObj kvs)"
    and "map_of kvs ''eventType'' \<noteq> Some (JStr ''checkout.completed'')"
  shows "creem_webhook s py d req = Inr (\<lparr>status = ''ignored'', reason = None\<rparr>, d)"
  using assms
  by (auto simp add: creem_webhook_def read_checkout_def parse_event_def and_then_def
        py_get_def Let_def split: option.splits)

theorem ignores_other_event_types_witness:
  "verify_signature test_py (body (signed ping_payload))
     (case headers (signed ping_payload) CREEM_SIGNATURE_HEADER of
        None \<Rightarrow> '''' | Some h \<Rightarrow> h)
     (CREEM_WEBHOOK_SECRET shop_settings) = Inr True \<and>
   json_loads test_py (body (signed ping_payload)) =
     Some (JObj [(''id'', JStr ''evt_0''), (''eventType'', JStr ''ping'')]) \<and>
   map_of [(''id'', JStr ''evt_0''), (''eventType'', JStr ''ping'')] ''eventType''
     \<noteq> Some (JStr ''checkout.completed'') \<and>
   creem_webhook shop_settings test_py (wallet_db 7 2 1) (signed ping_payload) =
     Inr (\<lparr>status = ''ignored'', reason = None\<rparr>, wallet_db 7 2 1)"
proof -
  have h2: "json_loads test_py (body (signed ping_payload)) =
     Some (JObj [(''id'', JStr ''evt_0''), (''eventType'', JStr ''ping'')])"
    by (simp add: webhook_evaluation)
  have h3: "map_of [(''id'', JStr ''evt_0''), (''eventType'', JStr ''ping'')] ''eventType''
     \<noteq> Some (JStr ''checkout.completed'')"
    by simp
  show ?thesis
    using signed_is_valid [of ping_payload] h2 h3
      ignores_other_event_types [OF signed_is_valid h2 h3, of "wallet_db 7 2 1"]
    by simp
qed




subsection \<open>Repeated deliveries\<close>

text \<open>
  In a store that already holds the transaction of an event, the credit-pack branch of
  the handler writes nothing. The recurring branch has no such guard before the grant:
  whenever it succeeds, the monthly allowance of the user is the configured amount again.
\<close>

lemma pack_dispatch_replay_is_noop:
  assumes "\<not> (billing_type = JStr ''recurring'' \<or> product_id = JStr (CREEM_SUBSCRIPTION_PRODUCT_ID s))"
    and "payment_args event currency = Inr (e, cur)"
    and "payment_transactions d e = Some t"
  shows "snd (dispatch s event data product product_id billing_type user_id metadata amount
           currency d) = d"
  using assms
  by (simp add: dispatch_def apply_pack_purchase_def get_transaction_by_external_id_def
        split: option.split)

lemma recurring_dispatch_resets_allowance:
  assumes "billing_type = JStr ''recurring'' \<or> product_id = JStr (CREEM_SUBSCRIPTION_PRODUCT_ID s)"
    and "dispatch s event data product product_id billing_type user_id metadata amount currency d
           = (Inr r, d')"
  shows "monthly_remaining (current_wallet d' user_id) = BILLING_MONTHLY_CREDITS s"
proof -
  obtain psid plan where args: "subscription_args data product = Inr (psid, plan)"
    using assms by (cases "subscription_args data product") (auto simp add: dispatch_def)
  obtain row d1 where
    g: "grant_monthly_allowance s d user_id ''creem'' psid ''active'' plan None None
          (Some metadata) = (Inr row, d1)"
    and w1: "credit_wallets d1 user_id =
       Some ((current_wallet d user_id)\<lparr>monthly_remaining := BILLING_MONTHLY_CREDITS s\<rparr>)"
    using grant_monthly_allowance_wallet by blast
  obtain e cur where pay: "payment_args event currency = Inr (e, cur)"
    using assms args g by (cases "payment_args event currency") (auto simp add: dispatch_def)
  obtain d2 where
    rec: "record_subscription_payment s d1 user_id ''creem'' e amount cur (Some metadata)
            = (Inr (), d2)"
    and w2: "credit_wallets d2 = credit_wallets d1"
    using record_subscription_payment_keeps_wallets by blast
  have "d' = d2"
    using assms args g pay rec by (simp add: dispatch_def)
  then show ?thesis
    using w1 w2 by (simp add: current_wallet_def)
qed

text \<open>
  C3. Processing the same provider event a second time should be a no-op: no store,
  the wallet included, changes on the second attempt. The handler breaks this for a
  recurring subscription event. It calls \<open>grant_monthly_allowance\<close> before the guarded
  \<open>record_subscription_payment\<close>, so a delivery that is repeated after the user spent
  credits finds the transaction of the event already recorded and still resets the
  allowance: the wallet goes from 47 monthly credits back to 50.
\<close>

theorem replayed_subscription_event_resets_allowance:
  "(case creem_webhook shop_settings test_py empty_db (signed subscription_payload) of
      Inl _ \<Rightarrow> False
    | Inr (r1, d1) \<Rightarrow>
        (case commit_usage shop_settings d1 7 None None None 2500 None None of
           (Inl _, _) \<Rightarrow> False
         | (Inr entry, d2) \<Rightarrow>
             (case creem_webhook shop_settings test_py d2 (signed subscription_payload) of
                Inl _ \<Rightarrow> False
              | Inr (r2, d3) \<Rightarrow>
                  status r1 = ''ok'' \<and> status r2 = ''ok'' \<and>
                  cost_credits entry = 3 \<and>
                  payment_transactions d2 ''evt_1'' \<noteq> None \<and>
                  payment_transactions d3 = payment_transactions d2 \<and>
                  current_wallet d1 7 = \<lparr>monthly_remaining = 50, prepaid_balance = 0\<rparr> \<and>
                  current_wallet d2 7 = \<lparr>monthly_remaining = 47, prepaid_balance = 0\<rparr> \<and>
                  current_wallet d3 7 = \<lparr>monthly_remaining = 50, prepaid_balance = 0\<rparr>)))"
  by (simp add: webhook_evaluation)

end
